theory Spec2Isabelle
  imports Complex_Main "HOL-Library.Monad_Syntax"
begin

section \<open>Python primitives used by the gesture pipeline\<close>

text \<open>
  The Python sources compute on IEEE binary64 numbers (doubles). A double is modelled by
  the real number it denotes, and \<open>fl\<close> below rounds a real to the nearest double. The
  two comparisons that decide a result for every input of a property below are
  computed as the source computes them, with every operation rounded: the extension
  test \<open>tip_y < pip_y - threshold\<close> of \<open>_is_extended\<close> and the test
  \<open>avg_confidence > confidence_threshold\<close> of the validation window. The remaining
  arithmetic (the direction vector, the finger spread, the confidences that are only
  returned) is exact: there rounding can change the last digits of a returned
  confidence, and the side of a threshold only when a computed value lies within
  rounding distance of it. A Python exception (IndexError for a list index out of
  range, ValueError for \<open>max\<close> or \<open>min\<close> of an empty sequence, ZeroDivisionError) is the
  value \<open>None\<close>; a normal return is \<open>Some\<close>.
\<close>

definition py_index :: "'a list \<Rightarrow> nat \<Rightarrow> 'a option" where
  "py_index xs i = (if i < length xs then Some (xs ! i) else None)"

definition py_div :: "real \<Rightarrow> real \<Rightarrow> real option" where
  "py_div a b = (if b = 0 then None else Some (a / b))"

text \<open>
  Rounding to binary64, round-to-nearest with ties to even. A positive magnitude is
  scaled by powers of two until it lies in \<open>[2^52, 2^53)\<close>, or until the exponent
  reaches \<open>-1074\<close> (the subnormal numbers); the scaled magnitude is rounded to an integer
  and scaled back. The fuel bounds the number of scaling steps and suffices for every
  magnitude between \<open>2^(-2000)\<close> and \<open>2^2000\<close>. Overflow to infinity (magnitudes of
  \<open>2^1024\<close> and above) and NaN are not modelled: landmarks are coordinates of a frame
  and confidences lie between 0 and 1.
\<close>

fun scale_mantissa :: "nat \<Rightarrow> real \<Rightarrow> int \<Rightarrow> real \<times> int" where
  "scale_mantissa 0 a e = (a, e)"
| "scale_mantissa (Suc fuel) a e =
     (if 2 ^ 53 \<le> a then scale_mantissa fuel (a / 2) (e + 1)
      else if a < 2 ^ 52 \<and> - 1074 < e then scale_mantissa fuel (a * 2) (e - 1)
      else (a, e))"

definition round_half_even :: "real \<Rightarrow> int" where
  "round_half_even a =
     (let f = \<lfloor>a\<rfloor>; r = a - of_int f
      in if r < 1 / 2 then f else if 1 / 2 < r then f + 1
         else if even f then f else f + 1)"

definition fl :: "real \<Rightarrow> real" where
  "fl v = (if v = 0 then 0
           else case scale_mantissa 2200 \<bar>v\<bar> 0 of
                  (a, e) \<Rightarrow> sgn v * of_int (round_half_even a) * 2 powi e)"

text \<open>\<open>a / b\<close> on doubles: ZeroDivisionError, or the rounded quotient.\<close>

definition py_float_div :: "real \<Rightarrow> real \<Rightarrow> real option" where
  "py_float_div a b = (if b = 0 then None else Some (fl (a / b)))"

text \<open>
  The builtin \<open>sum\<close> on a list of doubles, added left to right from 0 with every
  addition rounded. This is what CPython does before version 3.12; from 3.12 on
  \<open>sum\<close> compensates the rounding errors of a list of floats, so the validation window
  below takes the summing function as a parameter and \<open>naive_sum\<close> is one instance.
\<close>

definition naive_sum :: "real list \<Rightarrow> real" where
  "naive_sum xs = foldl (\<lambda>acc v. fl (acc + v)) 0 xs"

fun py_max :: "real list \<Rightarrow> real option" where
  "py_max [] = None"
| "py_max (v # vs) = Some (fold max vs v)"

fun py_min :: "real list \<Rightarrow> real option" where
  "py_min [] = None"
| "py_min (v # vs) = Some (fold min vs v)"

text \<open>\<open>xs[-n:]\<close>: the last \<open>n\<close> entries, the whole list when it is shorter.\<close>

definition py_last_n :: "nat \<Rightarrow> 'a list \<Rightarrow> 'a list" where
  "py_last_n n xs = drop (length xs - n) xs"

section \<open>gesture\_classifier.py: data\<close>

text \<open>
  A landmark carries the coordinates \<open>x\<close>, \<open>y\<close>, \<open>z\<close>. The source reads them either as
  attributes (\<open>p.x\<close>) or by position (\<open>p[0]\<close>, \<open>p[1]\<close>); both are the projections below.
\<close>

datatype landmark = Landmark (lm_x: real) (lm_y: real) (lm_z: real)

definition WRIST :: nat where "WRIST = 0"
definition THUMB_TIP :: nat where "THUMB_TIP = 4"
definition INDEX_TIP :: nat where "INDEX_TIP = 8"
definition MIDDLE_TIP :: nat where "MIDDLE_TIP = 12"
definition RING_TIP :: nat where "RING_TIP = 16"
definition PINKY_TIP :: nat where "PINKY_TIP = 20"
definition INDEX_PIP :: nat where "INDEX_PIP = 6"
definition MIDDLE_PIP :: nat where "MIDDLE_PIP = 10"
definition RING_PIP :: nat where "RING_PIP = 14"
definition PINKY_PIP :: nat where "PINKY_PIP = 18"
definition THUMB_IP :: nat where "THUMB_IP = 3"

section \<open>gesture\_classifier.py: geometry\<close>

text \<open>
  \<open>_is_extended(tip, pip, threshold=0.05)\<close>: \<open>tip_y < pip_y - threshold\<close>, the
  subtraction rounded as the double subtraction is.
\<close>

definition is_extended :: "landmark \<Rightarrow> landmark \<Rightarrow> real \<Rightarrow> bool" where
  "is_extended tip pip threshold = (lm_y tip < fl (lm_y pip - threshold))"

text \<open>
  \<open>_finger_spread\<close>: the x-range of the five tips over the x-range of all landmarks
  plus \<open>1e-6\<close>, capped at \<open>1.0\<close>.
\<close>

definition finger_spread :: "landmark list \<Rightarrow> real option" where
  "finger_spread lm = do {
     tips \<leftarrow> those (map (\<lambda>idx. map_option lm_x (py_index lm idx)) [4, 8, 12, 16, 20]);
     let all_x = map lm_x lm;
     max_tips \<leftarrow> py_max tips;
     min_tips \<leftarrow> py_min tips;
     max_all \<leftarrow> py_max all_x;
     min_all \<leftarrow> py_min all_x;
     spread \<leftarrow> py_div (max_tips - min_tips) (max_all - min_all + 1 / 1000000);
     Some (min spread 1)
   }"

text \<open>
  \<open>_get_point_direction\<close> and \<open>_get_thumb_direction\<close>: the tip relative to the wrist.
  Both take the handedness and never read it.
\<close>

definition get_point_direction :: "landmark list \<Rightarrow> string \<Rightarrow> string option" where
  "get_point_direction lm handedness = do {
     wrist \<leftarrow> py_index lm WRIST;
     index_tip \<leftarrow> py_index lm INDEX_TIP;
     let dx = lm_x index_tip - lm_x wrist;
     let dy = lm_y index_tip - lm_y wrist;
     let abs_dx = \<bar>dx\<bar>;
     let abs_dy = \<bar>dy\<bar>;
     Some (if abs_dx > abs_dy
           then (if dx < - (1 / 10) then ''left_point''
                 else if dx > 1 / 10 then ''right_point''
                 else ''unknown'')
           else (if dy < - (1 / 10) then ''up_point''
                 else if dy > 1 / 10 then ''down_point''
                 else ''unknown''))
   }"

definition get_thumb_direction :: "landmark list \<Rightarrow> string \<Rightarrow> string option" where
  "get_thumb_direction lm handedness = do {
     wrist \<leftarrow> py_index lm WRIST;
     thumb_tip \<leftarrow> py_index lm THUMB_TIP;
     let dx = lm_x thumb_tip - lm_x wrist;
     let dy = lm_y thumb_tip - lm_y wrist;
     let abs_dx = \<bar>dx\<bar>;
     let abs_dy = \<bar>dy\<bar>;
     Some (if abs_dx > abs_dy
           then (if dx < - (1 / 10) then ''thumbs_left''
                 else if dx > 1 / 10 then ''thumbs_right''
                 else ''unknown'')
           else (if dy < - (1 / 10) then ''thumbs_up''
                 else if dy > 1 / 10 then ''thumbs_down''
                 else ''unknown''))
   }"

section \<open>gesture\_classifier.py: classify\<close>

text \<open>
  Lines 52--56: the five extension flags (thumb, index, middle, ring, pinky), each from
  the tip and the joint below it, with the default threshold \<open>0.05\<close>, which is the
  double \<open>fl (5 / 100)\<close>.
\<close>

definition finger_states :: "landmark list \<Rightarrow> (bool \<times> bool \<times> bool \<times> bool \<times> bool) option" where
  "finger_states lm = do {
     thumb_tip \<leftarrow> py_index lm THUMB_TIP;
     thumb_ip \<leftarrow> py_index lm THUMB_IP;
     index_tip \<leftarrow> py_index lm INDEX_TIP;
     index_pip \<leftarrow> py_index lm INDEX_PIP;
     middle_tip \<leftarrow> py_index lm MIDDLE_TIP;
     middle_pip \<leftarrow> py_index lm MIDDLE_PIP;
     ring_tip \<leftarrow> py_index lm RING_TIP;
     ring_pip \<leftarrow> py_index lm RING_PIP;
     pinky_tip \<leftarrow> py_index lm PINKY_TIP;
     pinky_pip \<leftarrow> py_index lm PINKY_PIP;
     Some (is_extended thumb_tip thumb_ip (fl (5 / 100)),
           is_extended index_tip index_pip (fl (5 / 100)),
           is_extended middle_tip middle_pip (fl (5 / 100)),
           is_extended ring_tip ring_pip (fl (5 / 100)),
           is_extended pinky_tip pinky_pip (fl (5 / 100)))
   }"

text \<open>
  Lines 74--87: the rules after the open-palm rule (victory, rock, index point, no
  match), in the source's order.
\<close>

definition later_rules ::
  "landmark list \<Rightarrow> string \<Rightarrow> bool \<Rightarrow> bool \<Rightarrow> bool \<Rightarrow> bool \<Rightarrow> (string \<times> real) option" where
  "later_rules lm handedness index_extended middle_extended ring_extended pinky_extended =
     (if index_extended \<and> middle_extended \<and> \<not> ring_extended \<and> \<not> pinky_extended
      then Some (''victory'', 88 / 100)
      else if index_extended \<and> pinky_extended \<and> \<not> middle_extended \<and> \<not> ring_extended
      then Some (''rock'', 88 / 100)
      else if index_extended \<and> \<not> middle_extended \<and> \<not> ring_extended \<and> \<not> pinky_extended
      then do {
        direction \<leftarrow> get_point_direction lm handedness;
        Some (direction, 80 / 100)
      }
      else Some (''unknown'', 0))"

text \<open>
  Lines 46--72: the length guard, the flags, then the thumb rule, the closed-palm rule
  and the open-palm rule, which falls through when the spread is at most \<open>0.3\<close>.
\<close>

definition classify :: "landmark list \<Rightarrow> string \<Rightarrow> (string \<times> real) option" where
  "classify landmarks handedness =
     (if length landmarks \<noteq> 21 then Some (''unknown'', 0)
      else do {
        (thumb_extended, index_extended, middle_extended, ring_extended, pinky_extended)
          \<leftarrow> finger_states landmarks;
        if thumb_extended \<and> \<not> index_extended \<and> \<not> middle_extended \<and> \<not> ring_extended
           \<and> \<not> pinky_extended
        then do {
          thumb_direction \<leftarrow> get_thumb_direction landmarks handedness;
          Some (thumb_direction, 85 / 100)
        }
        else if \<not> (thumb_extended \<or> index_extended \<or> middle_extended \<or> ring_extended
                   \<or> pinky_extended)
        then Some (''closed_palm'', 90 / 100)
        else if thumb_extended \<and> index_extended \<and> middle_extended \<and> ring_extended
                \<and> pinky_extended
        then do {
          spread \<leftarrow> finger_spread landmarks;
          if spread > 3 / 10
          then Some (''open_palm'', min (95 / 100) (7 / 10 + spread * (25 / 100)))
          else later_rules landmarks handedness index_extended middle_extended
                 ring_extended pinky_extended
        }
        else later_rules landmarks handedness index_extended middle_extended
               ring_extended pinky_extended
      })"

section \<open>gesture\_classifier.py: smooth\_gesture\<close>

text \<open>
  The classifier holds \<open>gesture_history\<close>, a list of (gesture, confidence) pairs, oldest
  first, empty at construction, and \<open>history_size = 5\<close>. \<open>smooth_gesture\<close> takes the
  history and returns the result with the updated history. The parameter
  \<open>history_weight\<close> (default \<open>0.7\<close>) is never read.
  \<open>pop(0)\<close> is \<open>tl\<close> (the list is not empty: an entry was just appended), and
  \<open>h[-2]\<close> under \<open>len(h) > 1\<close> is the entry at \<open>len(h) - 2\<close>.
\<close>

definition history_size :: nat where
  "history_size = 5"

definition smooth_gesture ::
  "(string \<times> real) list \<Rightarrow> string \<Rightarrow> real \<Rightarrow> real
     \<Rightarrow> ((string \<times> real) \<times> (string \<times> real) list) option" where
  "smooth_gesture gesture_history gesture confidence history_weight =
     (let appended = gesture_history @ [(gesture, confidence)];
          history = (if length appended > history_size then tl appended else appended);
          recent_gestures = map fst (py_last_n 3 history);
          recent_confidences = map snd (py_last_n 3 history)
      in if length history > 0 \<and> count_list recent_gestures gesture \<ge> 2
         then do {
           smoothed_conf \<leftarrow> py_div (sum_list recent_confidences)
                                   (real (length recent_confidences));
           Some ((gesture, smoothed_conf), history)
         }
         else if gesture \<noteq> ''unknown'' then Some ((gesture, confidence), history)
         else if length history > 1
         then do {
           (last_gesture, last_conf) \<leftarrow> py_index history (length history - 2);
           Some ((last_gesture, last_conf * (5 / 10)), history)
         }
         else Some ((''unknown'', 0), history))"

text \<open>
  The procedure as the specification words it: append and evict the oldest entry beyond
  capacity 5; look at the last three entries (newest first here); a gesture seen at
  least twice among them gets the mean of their confidences; otherwise a gesture other
  than \<open>unknown\<close> passes through; otherwise the second-most-recent entry is returned with
  its confidence halved, when there are at least two entries; otherwise
  \<open>(unknown, 0.0)\<close>.
\<close>

definition smooth_spec ::
  "(string \<times> real) list \<Rightarrow> string \<Rightarrow> real
     \<Rightarrow> (string \<times> real) \<times> (string \<times> real) list" where
  "smooth_spec history gesture confidence =
     (let appended = history @ [(gesture, confidence)];
          kept = (if length appended > 5 then drop 1 appended else appended);
          last3 = take 3 (rev kept)
      in if length (filter (\<lambda>e. fst e = gesture) last3) \<ge> 2
         then ((gesture, (\<Sum>e\<leftarrow>last3. snd e) / real (length last3)), kept)
         else if gesture \<noteq> ''unknown'' then ((gesture, confidence), kept)
         else (case rev kept of
                 newest # (g, c) # older \<Rightarrow> ((g, c / 2), kept)
               | _ \<Rightarrow> ((''unknown'', 0), kept)))"

section \<open>hand\_gesture.py: the validation window (lines 110--131)\<close>

text \<open>The literal \<open>0.7\<close> is the double nearest to \<open>7 / 10\<close>.\<close>

definition confidence_threshold :: real where
  "confidence_threshold = fl (7 / 10)"

definition min_frames_required :: nat where
  "min_frames_required = 10"

definition max_frames :: nat where
  "max_frames = 12"

text \<open>
  \<open>max(iterable, key=f)\<close>: the first element whose key is maximal; ValueError on an
  empty iterable.
\<close>

fun py_max_key :: "('a \<Rightarrow> nat) \<Rightarrow> 'a list \<Rightarrow> 'a option" where
  "py_max_key key [] = None"
| "py_max_key key (v # vs) =
     Some (fold (\<lambda>cand best. if key cand > key best then cand else best) vs v)"

text \<open>
  Lines 110--115: a smoothed result other than \<open>unknown\<close> is appended; beyond 12 entries
  the oldest is dropped.
\<close>

definition window_append ::
  "(string \<times> real) list \<Rightarrow> string \<times> real \<Rightarrow> (string \<times> real) list" where
  "window_append gesture_frame_history smoothed =
     (let appended = (if fst smoothed \<noteq> ''unknown''
                      then gesture_frame_history @ [smoothed]
                      else gesture_frame_history)
      in if length appended > max_frames then tl appended else appended)"

text \<open>
  Line 126: \<open>sum(gesture_confidences) / len(gesture_confidences)\<close>, computed in doubles:
  the sum as the interpreter's \<open>sum\<close> rounds it (\<open>float_sum\<close>), then one rounded
  division by the length.
\<close>

definition avg_confidence :: "(real list \<Rightarrow> real) \<Rightarrow> real list \<Rightarrow> real option" where
  "avg_confidence float_sum gesture_confidences =
     py_float_div (float_sum gesture_confidences) (real (length gesture_confidences))"

text \<open>
  Lines 117--131: the check. The result is \<open>validated_gesture\<close> (\<open>None\<close> as in the
  source) and the buffer after the step. \<open>set(gesture_names)\<close> is iterated in an order
  Python does not specify; \<open>set_order\<close> is that order, any function that lists the
  members of the set. \<open>float_sum\<close> is the interpreter's \<open>sum\<close> on doubles.
\<close>

definition validation_step ::
  "(string list \<Rightarrow> string list) \<Rightarrow> (real list \<Rightarrow> real) \<Rightarrow> (string \<times> real) list
     \<Rightarrow> string \<times> real \<Rightarrow> (string option \<times> (string \<times> real) list) option" where
  "validation_step set_order float_sum gesture_frame_history smoothed =
     (let history = window_append gesture_frame_history smoothed
      in if length history \<ge> min_frames_required
         then do {
           let gesture_names = map fst history;
           let gesture_confidences = map snd history;
           most_common \<leftarrow> py_max_key (count_list gesture_names) (set_order gesture_names);
           let count = count_list gesture_names most_common;
           average \<leftarrow> avg_confidence float_sum gesture_confidences;
           if count \<ge> min_frames_required \<and> average > confidence_threshold
           then Some (Some most_common, [])
           else Some (None, history)
         }
         else Some (None, history))"

text \<open>
  The per-frame loop over a stream of smoothed results: the validated gesture of every
  step, and the final buffer. An exception in a step ends the run (\<open>None\<close>).
\<close>

fun run_window ::
  "(string list \<Rightarrow> string list) \<Rightarrow> (real list \<Rightarrow> real) \<Rightarrow> (string \<times> real) list
     \<Rightarrow> (string \<times> real) list \<Rightarrow> (string option list \<times> (string \<times> real) list) option" where
  "run_window set_order float_sum buf [] = Some ([], buf)"
| "run_window set_order float_sum buf (r # rs) = do {
     (validated, buf') \<leftarrow> validation_step set_order float_sum buf r;
     (rest, final) \<leftarrow> run_window set_order float_sum buf' rs;
     Some (validated # rest, final)
   }"

text \<open>The buffer contents that the check of each step looks at.\<close>

fun checked_buffers ::
  "(string list \<Rightarrow> string list) \<Rightarrow> (real list \<Rightarrow> real) \<Rightarrow> (string \<times> real) list
     \<Rightarrow> (string \<times> real) list \<Rightarrow> (string \<times> real) list list" where
  "checked_buffers set_order float_sum buf [] = []"
| "checked_buffers set_order float_sum buf (r # rs) =
     window_append buf r #
       (case validation_step set_order float_sum buf r of
          Some (validated, buf') \<Rightarrow> checked_buffers set_order float_sum buf' rs
        | None \<Rightarrow> [])"

section \<open>command\_mapper.py\<close>

text \<open>
  The two tables are module-level dictionaries that no code of the repository updates;
  they are association lists in the order of the literal (the keys are distinct).
  A colour is a triple of integers. A Python string is the list of the bytes of its
  UTF-8 encoding, so the emoji at the end of five command texts are four bytes each.
\<close>

type_synonym color = "nat \<times> nat \<times> nat"

definition GESTURE_TO_COMMAND :: "(string \<times> (string \<times> color)) list" where
  "GESTURE_TO_COMMAND =
     [(''left_point'', (''LEFT MOVE'', (0, 255, 0))),
      (''right_point'', (''RIGHT MOVE'', (0, 255, 0))),
      (''up_point'', (''UPWARD MOVE'', (0, 255, 0))),
      (''down_point'', (''DOWNWARD MOVE'', (0, 255, 0))),
      (''thumbs_up'',
         (''MOVE UP '' @ [CHR 0xF0, CHR 0x9F, CHR 0x91, CHR 0x8D], (255, 100, 100))),
      (''thumbs_down'',
         (''MOVE DOWN '' @ [CHR 0xF0, CHR 0x9F, CHR 0x91, CHR 0x8E], (255, 100, 100))),
      (''thumbs_left'',
         (''MOVE LEFT '' @ [CHR 0xF0, CHR 0x9F, CHR 0x91, CHR 0x88], (100, 255, 100))),
      (''thumbs_right'',
         (''MOVE RIGHT '' @ [CHR 0xF0, CHR 0x9F, CHR 0x91, CHR 0x89], (100, 255, 100))),
      (''victory'',
         (''VICTORY CELEBRATION! '' @ [CHR 0xF0, CHR 0x9F, CHR 0x8E, CHR 0x89],
          (0, 200, 255))),
      (''rock'', (''BACKFLIP!'', (255, 0, 255))),
      (''open_palm'', (''STOP IMMEDIATELY'', (0, 0, 255))),
      (''closed_palm'', (''LAND'', (255, 0, 0)))]"

definition SHAPE_TO_COMMAND :: "(string \<times> (string \<times> color)) list" where
  "SHAPE_TO_COMMAND =
     [(''circle'', (''CIRCLE MOVEMENT'', (100, 100, 255))),
      (''square'', (''SQUARE PATTERN'', (100, 255, 100))),
      (''triangle'', (''TRIANGLE PATTERN'', (255, 100, 100))),
      (''line'', (''LINE MOVEMENT'', (200, 200, 0)))]"

text \<open>\<open>d.get(k, dflt)\<close>: the value stored under \<open>k\<close>, \<open>dflt\<close> when there is none.\<close>

definition py_dict_get :: "('k \<times> 'v) list \<Rightarrow> 'k \<Rightarrow> 'v \<Rightarrow> 'v" where
  "py_dict_get d k dflt = (case map_of d k of Some v \<Rightarrow> v | None \<Rightarrow> dflt)"

definition get_gesture_command :: "string \<Rightarrow> string \<times> color" where
  "get_gesture_command gesture =
     py_dict_get GESTURE_TO_COMMAND gesture ('''', (128, 128, 128))"

definition get_shape_command :: "string \<Rightarrow> string \<times> color" where
  "get_shape_command shape = py_dict_get SHAPE_TO_COMMAND shape ('''', (128, 128, 128))"

definition is_critical_command :: "string \<Rightarrow> bool" where
  "is_critical_command gesture \<longleftrightarrow> gesture \<in> set [''open_palm'', ''closed_palm'']"

section \<open>Notions used to state the properties\<close>

text \<open>
  The gesture labels: the thirteen labels that \<open>classify\<close> can return (lemma
  \<open>classify_labels\<close> below), twelve gestures and \<open>unknown\<close>. The shape labels: the four
  shapes of the shape table.
\<close>

definition gesture_labels :: "string list" where
  "gesture_labels =
     [''left_point'', ''right_point'', ''up_point'', ''down_point'',
      ''thumbs_up'', ''thumbs_down'', ''thumbs_left'', ''thumbs_right'',
      ''victory'', ''rock'', ''open_palm'', ''closed_palm'', ''unknown'']"

definition shape_labels :: "string list" where
  "shape_labels = [''circle'', ''square'', ''triangle'', ''line'']"

text \<open>
  The test of line 129 on the mean: the mean of the buffer's confidences, as line 126
  computes it, exceeds the threshold.
\<close>

definition mean_exceeds_threshold ::
  "(real list \<Rightarrow> real) \<Rightarrow> (string \<times> real) list \<Rightarrow> bool" where
  "mean_exceeds_threshold float_sum history =
     (case avg_confidence float_sum (map snd history) of
        Some average \<Rightarrow> confidence_threshold < average
      | None \<Rightarrow> False)"










text \<open>
  Concrete hands, laid out as \<open>create_mock_landmarks\<close> of test\_gestures.py does: the
  wrist at \<open>(0.5, 0.5)\<close>, then four landmarks for the thumb and four (MCP, PIP, DIP, tip)
  for each finger.
\<close>

definition mock_wrist :: landmark where
  "mock_wrist = Landmark (5 / 10) (5 / 10) 0"

definition mock_thumb :: "real \<Rightarrow> landmark list" where
  "mock_thumb tip_y =
     [Landmark (45 / 100) (50 / 100) 0, Landmark (47 / 100) (48 / 100) 0,
      Landmark (48 / 100) (45 / 100) 0, Landmark (50 / 100) tip_y 0]"

definition closed_finger :: "landmark list" where
  "closed_finger =
     [Landmark (50 / 100) (48 / 100) 0, Landmark (50 / 100) (50 / 100) 0,
      Landmark (50 / 100) (52 / 100) 0, Landmark (50 / 100) (55 / 100) 0]"

definition extended_finger :: "real \<Rightarrow> landmark list" where
  "extended_finger tip_x =
     [Landmark (50 / 100) (48 / 100) 0, Landmark (50 / 100) (35 / 100) 0,
      Landmark (50 / 100) (25 / 100) 0, Landmark tip_x (15 / 100) 0]"


text \<open>All five fingers extended, the tips spread over \<open>x = 0.3 .. 0.7\<close>.\<close>

definition open_hand_spread :: "landmark list" where
  "open_hand_spread =
     mock_wrist # [Landmark (45 / 100) (50 / 100) 0, Landmark (47 / 100) (48 / 100) 0,
                   Landmark (48 / 100) (45 / 100) 0, Landmark (30 / 100) (30 / 100) 0]
       @ extended_finger (40 / 100) @ extended_finger (50 / 100)
       @ extended_finger (60 / 100) @ extended_finger (70 / 100)"

text \<open>All five fingers extended, every tip at \<open>x = 0.5\<close>: the spread is 0.\<close>

definition open_hand_narrow :: "landmark list" where
  "open_hand_narrow =
     mock_wrist # mock_thumb (30 / 100) @ extended_finger (50 / 100)
       @ extended_finger (50 / 100) @ extended_finger (50 / 100)
       @ extended_finger (50 / 100)"

text \<open>
  Only the thumb extended (tip at \<open>y = 0.42\<close>, joint at \<open>y = 0.5\<close>), the tip
  \<open>0.08\<close> above the wrist and straight over it: inside the dead zone.
\<close>

definition dead_zone_thumb_hand :: "landmark list" where
  "dead_zone_thumb_hand =
     mock_wrist # [Landmark (45 / 100) (50 / 100) 0, Landmark (47 / 100) (50 / 100) 0,
                   Landmark (48 / 100) (50 / 100) 0, Landmark (50 / 100) (42 / 100) 0]
       @ closed_finger @ closed_finger @ closed_finger @ closed_finger"

text \<open>Only the index finger extended, its tip \<open>0.08\<close> above the wrist.\<close>

definition dead_zone_index_hand :: "landmark list" where
  "dead_zone_index_hand =
     mock_wrist # mock_thumb (55 / 100)
       @ [Landmark (50 / 100) (48 / 100) 0, Landmark (50 / 100) (50 / 100) 0,
          Landmark (50 / 100) (45 / 100) 0, Landmark (50 / 100) (42 / 100) 0]
       @ closed_finger @ closed_finger @ closed_finger"

text \<open>
  A stream of 13 smoothed results, one of them \<open>unknown\<close>, alternating between two
  labels with confidence \<open>0.95\<close>: neither label is ever 10 times in the buffer.
\<close>

definition mixed_stream :: "(string \<times> real) list" where
  "mixed_stream =
     [(''victory'', 95 / 100), (''rock'', 95 / 100), (''victory'', 95 / 100),
      (''unknown'', 0), (''rock'', 95 / 100), (''victory'', 95 / 100),
      (''rock'', 95 / 100), (''victory'', 95 / 100), (''rock'', 95 / 100),
      (''victory'', 95 / 100), (''rock'', 95 / 100), (''victory'', 95 / 100),
      (''rock'', 95 / 100)]"

section \<open>Properties of classify\<close>

lemmas landmark_indices =
  WRIST_def THUMB_TIP_def INDEX_TIP_def MIDDLE_TIP_def RING_TIP_def PINKY_TIP_def
  INDEX_PIP_def MIDDLE_PIP_def RING_PIP_def PINKY_PIP_def THUMB_IP_def

lemmas mock_defs =
  mock_wrist_def mock_thumb_def closed_finger_def extended_finger_def

lemma py_index_in_range: "i < length xs \<Longrightarrow> py_index xs i = Some (xs ! i)"
  by (simp add: py_index_def)

lemma finger_states_21:
  "length lm = 21 \<Longrightarrow>
   finger_states lm =
     Some (is_extended (lm ! 4) (lm ! 3) (fl (5 / 100)),
           is_extended (lm ! 8) (lm ! 6) (fl (5 / 100)),
           is_extended (lm ! 12) (lm ! 10) (fl (5 / 100)),
           is_extended (lm ! 16) (lm ! 14) (fl (5 / 100)),
           is_extended (lm ! 20) (lm ! 18) (fl (5 / 100)))"
  by (simp add: finger_states_def landmark_indices py_index_in_range)

text \<open>
  C6. A landmark list whose length is not 21 is answered by the guard on the first line
  of \<open>classify\<close>: the call returns normally (no exception) with \<open>(unknown, 0.0)\<close>, before
  any landmark is indexed.
\<close>

theorem classify_wrong_length:
  "length landmarks \<noteq> 21 \<Longrightarrow> classify landmarks handedness = Some (''unknown'', 0)"
  by (simp add: classify_def)

theorem classify_wrong_length_witness:
  "length [Landmark (1 / 2) (1 / 2) 0] \<noteq> 21
   \<and> classify [Landmark (1 / 2) (1 / 2) 0] ''Right'' = Some (''unknown'', 0)"
  using classify_wrong_length [of "[Landmark (1 / 2) (1 / 2) 0]" "''Right''"] by simp

text \<open>
  C9. The handedness argument is inert: for the same landmarks, any two handedness
  values, in particular \<open>Left\<close> and \<open>Right\<close>, give the same result.
\<close>

theorem classify_handedness_inert:
  "classify landmarks ''Left'' = classify landmarks ''Right''
   \<and> classify landmarks h1 = classify landmarks h2"
proof -
  have inert: "classify landmarks a = classify landmarks b" for a b
  proof -
    have thumb: "get_thumb_direction landmarks a = get_thumb_direction landmarks b"
      by (simp add: get_thumb_direction_def)
    have later: "later_rules landmarks a i m r p = later_rules landmarks b i m r p"
      for i m r p
      by (simp add: later_rules_def get_point_direction_def)
    show ?thesis
      unfolding classify_def by (simp only: thumb later)
  qed
  show ?thesis
    using inert [of "''Left''" "''Right''"] inert [of h1 h2] by (rule conjI)
qed

lemma fold_max_ge: "(v::real) \<le> fold max vs v"
  by (induction vs arbitrary: v) (auto intro: order_trans [OF max.cobounded2])

lemma fold_min_le: "fold min vs (v::real) \<le> v"
  by (induction vs arbitrary: v) (auto intro: order_trans [OF _ min.cobounded2])

lemma py_div_pos: "0 < b \<Longrightarrow> py_div a b = Some (a / b)"
  by (simp add: py_div_def)

text \<open>With 21 landmarks the spread is computed without any exception.\<close>

lemma finger_spread_21:
  assumes "length lm = 21"
  shows "\<exists>s. finger_spread lm = Some s"
proof -
  from assms obtain p ps where lm: "lm = p # ps" by (cases lm) auto
  have "fold min (map lm_x ps) (lm_x p) \<le> fold max (map lm_x ps) (lm_x p)"
    using fold_min_le [of "map lm_x ps" "lm_x p"] fold_max_ge [of "lm_x p" "map lm_x ps"]
    by linarith
  then have pos:
    "0 < fold max (map lm_x ps) (lm_x p) - fold min (map lm_x ps) (lm_x p) + 1 / 1000000"
    by linarith
  have len: "length (p # ps) = 21" using assms lm by simp
  show ?thesis
    unfolding finger_spread_def lm
    using pos len by (simp add: py_index_in_range py_div_pos)
qed

text \<open>
  Evaluating \<open>fl\<close> at a number: the scaling loop unfolds on the numeral fuel.
\<close>

lemma scale_mantissa_numeral:
  "scale_mantissa (numeral k) a e =
     (if 2 ^ 53 \<le> a then scale_mantissa (pred_numeral k) (a / 2) (e + 1)
      else if a < 2 ^ 52 \<and> - 1074 < e then scale_mantissa (pred_numeral k) (a * 2) (e - 1)
      else (a, e))"
  by (simp add: numeral_eq_Suc)

lemmas fl_eval = fl_def scale_mantissa_numeral round_half_even_def

text \<open>
  The doubles that the hands below meet: the literals \<open>0.05\<close> and \<open>0.7\<close>, and the
  rounded subtractions of the tie.
\<close>

lemma fl_literals:
  "fl (5 / 100) = 3602879701896397 / 72057594037927936"
  "fl (7 / 10) = 3152519739159347 / 4503599627370496"
  by (simp_all add: fl_eval)

lemma fl_tie:
  "fl (3 / 4 - fl (5 / 100)) = fl (7 / 10)"
  "fl (1 / 8 - fl (5 / 100)) = 5404319552844595 / 72057594037927936"
  "fl (7 / 10) - 5 / 8 = 5404319552844592 / 72057594037927936"
  by (simp_all add: fl_eval)





text \<open>
  C4. A hand of 21 landmarks with all five fingers extended: the spread is computed
  (no exception); if it exceeds \<open>0.3\<close> the result is
  \<open>(open_palm, min(0.95, 0.7 + spread * 0.25))\<close>; otherwise the open-palm rule does not
  fire and the result is that of the later rules (victory, rock, index point, no match)
  in their order, which for five extended fingers is \<open>(unknown, 0.0)\<close>.
\<close>

theorem open_palm_rule:
  assumes "length lm = 21"
    and "finger_states lm = Some (True, True, True, True, True)"
  shows "\<exists>spread. finger_spread lm = Some spread
     \<and> classify lm h =
         (if spread > 3 / 10
          then Some (''open_palm'', min (95 / 100) (7 / 10 + spread * (25 / 100)))
          else later_rules lm h True True True True)
     \<and> later_rules lm h True True True True = Some (''unknown'', 0)"
proof -
  from finger_spread_21 [OF assms(1)] obtain s where s: "finger_spread lm = Some s" ..
  have "classify lm h =
         (if s > 3 / 10
          then Some (''open_palm'', min (95 / 100) (7 / 10 + s * (25 / 100)))
          else later_rules lm h True True True True)"
    using assms s by (simp add: classify_def)
  moreover have "later_rules lm h True True True True = Some (''unknown'', 0)"
    by (simp add: later_rules_def)
  ultimately show ?thesis using s by blast
qed

theorem open_palm_rule_witness:
  "length open_hand_spread = 21
   \<and> finger_states open_hand_spread = Some (True, True, True, True, True)
   \<and> finger_spread open_hand_spread = Some (400000 / 400001)
   \<and> classify open_hand_spread ''Right'' = Some (''open_palm'', 3800007 / 4000010)
   \<and> length open_hand_narrow = 21
   \<and> finger_states open_hand_narrow = Some (True, True, True, True, True)
   \<and> finger_spread open_hand_narrow = Some 0
   \<and> classify open_hand_narrow ''Left'' = Some (''unknown'', 0)"
proof -
  have len_s: "length open_hand_spread = 21"
    by (simp add: open_hand_spread_def mock_defs)
  have len_n: "length open_hand_narrow = 21"
    by (simp add: open_hand_narrow_def mock_defs)
  have fs_s: "finger_states open_hand_spread = Some (True, True, True, True, True)"
    by (simp add: finger_states_21 [OF len_s])
       (simp add: open_hand_spread_def mock_defs is_extended_def fl_eval)
  have fs_n: "finger_states open_hand_narrow = Some (True, True, True, True, True)"
    by (simp add: finger_states_21 [OF len_n])
       (simp add: open_hand_narrow_def mock_defs is_extended_def fl_eval)
  have sp_s: "finger_spread open_hand_spread = Some (400000 / 400001)"
    by (simp add: finger_spread_def open_hand_spread_def mock_defs py_index_def py_div_def)
  have sp_n: "finger_spread open_hand_narrow = Some 0"
    by (simp add: finger_spread_def open_hand_narrow_def mock_defs py_index_def py_div_def)
  have cl_s: "classify open_hand_spread ''Right'' = Some (''open_palm'', 3800007 / 4000010)"
  proof -
    from open_palm_rule [OF len_s fs_s, of "''Right''"] obtain sp
      where "finger_spread open_hand_spread = Some sp"
        and c: "classify open_hand_spread ''Right'' =
          (if sp > 3 / 10
           then Some (''open_palm'', min (95 / 100) (7 / 10 + sp * (25 / 100)))
           else later_rules open_hand_spread ''Right'' True True True True)"
      by blast
    with sp_s have "sp = 400000 / 400001" by simp
    with c show ?thesis by simp
  qed
  have cl_n: "classify open_hand_narrow ''Left'' = Some (''unknown'', 0)"
  proof -
    from open_palm_rule [OF len_n fs_n, of "''Left''"] obtain sp
      where "finger_spread open_hand_narrow = Some sp"
        and c: "classify open_hand_narrow ''Left'' =
          (if sp > 3 / 10
           then Some (''open_palm'', min (95 / 100) (7 / 10 + sp * (25 / 100)))
           else later_rules open_hand_narrow ''Left'' True True True True)"
        and l: "later_rules open_hand_narrow ''Left'' True True True True
                  = Some (''unknown'', 0)"
      by blast
    with sp_n have "sp = 0" by simp
    with c l show ?thesis by simp
  qed
  show ?thesis
    using len_s len_n fs_s fs_n sp_s sp_n cl_s cl_n by simp
qed

text \<open>
  What the source does in the dead zone, for any hand of 21 landmarks: the direction
  helper returns \<open>unknown\<close> and \<open>classify\<close> pairs it with the confidence of the rule
  that called the helper, \<open>0.85\<close> for the thumb rule and \<open>0.80\<close> for the index rule.
\<close>

lemma dead_zone_unresolved:
  fixes dx dy :: real
  assumes "(if \<bar>dx\<bar> > \<bar>dy\<bar> then \<bar>dx\<bar> else \<bar>dy\<bar>) \<le> 1 / 10"
  shows "(if \<bar>dx\<bar> > \<bar>dy\<bar>
          then (if dx < - (1 / 10) then a else if dx > 1 / 10 then b else u)
          else (if dy < - (1 / 10) then c else if dy > 1 / 10 then d else u)) = u"
proof (cases "\<bar>dx\<bar> > \<bar>dy\<bar>")
  case True
  with assms have "\<bar>dx\<bar> \<le> 1 / 10" by simp
  then have "\<not> dx < - (1 / 10)" and "\<not> dx > 1 / 10" by linarith+
  with True show ?thesis by simp
next
  case False
  with assms have "\<bar>dy\<bar> \<le> 1 / 10" by simp
  then have "\<not> dy < - (1 / 10)" and "\<not> dy > 1 / 10" by linarith+
  with False show ?thesis by simp
qed

lemma thumb_dead_zone:
  assumes "length lm = 21"
    and "finger_states lm = Some (True, False, False, False, False)"
    and "(if \<bar>lm_x (lm ! 4) - lm_x (lm ! 0)\<bar> > \<bar>lm_y (lm ! 4) - lm_y (lm ! 0)\<bar>
          then \<bar>lm_x (lm ! 4) - lm_x (lm ! 0)\<bar>
          else \<bar>lm_y (lm ! 4) - lm_y (lm ! 0)\<bar>) \<le> 1 / 10"
  shows "classify lm h = Some (''unknown'', 85 / 100)"
proof -
  have "get_thumb_direction lm h = Some ''unknown''"
  proof -
    have i0: "py_index lm 0 = Some (lm ! 0)" and i4: "py_index lm 4 = Some (lm ! 4)"
      using assms(1) by (simp_all add: py_index_def)
    show ?thesis
      unfolding get_thumb_direction_def landmark_indices i0 i4 bind.bind_lunit Let_def
      by (simp only: dead_zone_unresolved [OF assms(3)])
  qed
  with assms(1,2) show ?thesis
    by (simp add: classify_def)
qed

lemma index_dead_zone:
  assumes "length lm = 21"
    and "finger_states lm = Some (False, True, False, False, False)"
    and "(if \<bar>lm_x (lm ! 8) - lm_x (lm ! 0)\<bar> > \<bar>lm_y (lm ! 8) - lm_y (lm ! 0)\<bar>
          then \<bar>lm_x (lm ! 8) - lm_x (lm ! 0)\<bar>
          else \<bar>lm_y (lm ! 8) - lm_y (lm ! 0)\<bar>) \<le> 1 / 10"
  shows "classify lm h = Some (''unknown'', 80 / 100)"
proof -
  have "get_point_direction lm h = Some ''unknown''"
  proof -
    have i0: "py_index lm 0 = Some (lm ! 0)" and i8: "py_index lm 8 = Some (lm ! 8)"
      using assms(1) by (simp_all add: py_index_def)
    show ?thesis
      unfolding get_point_direction_def landmark_indices i0 i8 bind.bind_lunit Let_def
      by (simp only: dead_zone_unresolved [OF assms(3)])
  qed
  with assms(1,2) show ?thesis
    by (simp add: classify_def later_rules_def)
qed

text \<open>
  C1. In the dead zone (dominant-axis displacement of the tip from the wrist at most
  \<open>0.1\<close>) the label is \<open>unknown\<close>, and the claim gives it confidence \<open>0.0\<close>. The source
  returns \<open>0.85\<close> for a thumb-only hand and \<open>0.80\<close> for an index-only hand, evaluated
  here on two concrete hands whose tip is \<open>0.08\<close> above the wrist.
\<close>

theorem dead_zone_confidence:
  "classify dead_zone_thumb_hand ''Right'' = Some (''unknown'', 85 / 100)
   \<and> classify dead_zone_index_hand ''Right'' = Some (''unknown'', 80 / 100)"
  by (simp add: classify_def finger_states_def get_thumb_direction_def later_rules_def
      get_point_direction_def dead_zone_thumb_hand_def dead_zone_index_hand_def mock_defs
      is_extended_def py_index_def landmark_indices fl_eval)

section \<open>Properties of smooth\_gesture\<close>

lemma py_last_n_rev: "rev (py_last_n n xs) = take n (rev xs)"
  by (simp add: py_last_n_def take_rev)

lemma count_list_fst_filter:
  "count_list (map fst xs) g = length (filter (\<lambda>e. fst e = g) xs)"
  by (induction xs) auto

lemma recent_count:
  "count_list (map fst (py_last_n 3 h)) g
     = length (filter (\<lambda>e. fst e = g) (take 3 (rev h)))"
proof -
  have "count_list (map fst (py_last_n 3 h)) g
          = count_list (rev (map fst (py_last_n 3 h))) g"
    by simp
  also have "\<dots> = count_list (map fst (take 3 (rev h))) g"
    by (simp only: rev_map py_last_n_rev)
  finally show ?thesis by (simp only: count_list_fst_filter)
qed

lemma recent_sum:
  fixes h :: "(string \<times> real) list"
  shows "sum_list (map snd (py_last_n 3 h)) = (\<Sum>e\<leftarrow>take 3 (rev h). snd e)"
proof -
  have "sum_list (map snd (py_last_n 3 h)) = sum_list (rev (map snd (py_last_n 3 h)))"
    by simp
  also have "\<dots> = sum_list (map snd (take 3 (rev h)))"
    by (simp only: rev_map py_last_n_rev)
  finally show ?thesis .
qed

lemma recent_length: "length (map snd (py_last_n 3 h)) = length (take 3 (rev h))"
  by (simp add: py_last_n_def)

lemma second_most_recent:
  assumes "length h > 1"
  shows "\<exists>newest older. rev h = newest # (h ! (length h - 2)) # older"
proof -
  from assms obtain a b older where r: "rev h = a # b # older"
    by (cases "rev h"; cases "tl (rev h)") (auto simp: Suc_length_conv dest: arg_cong [where f=length])
  have "rev h ! 1 = h ! (length h - Suc 1)"
    using assms by (intro rev_nth) simp
  with r have "b = h ! (length h - 2)" by (simp add: numeral_2_eq_2)
  with r show ?thesis by blast
qed

lemma drop_1_tl: "drop 1 xs = tl xs"
  by (cases xs) simp_all

lemma only_entry:
  assumes "h \<noteq> []" and "\<not> length h > 1"
  shows "\<exists>e. rev h = [e]"
  using assms by (cases h) auto

text \<open>
  C3. \<open>smooth_gesture\<close> is the ordered procedure of the specification: for every
  history, gesture and confidence it returns normally, with the result and the updated
  history that \<open>smooth_spec\<close> describes.
\<close>

theorem smooth_gesture_refines:
  "smooth_gesture history gesture confidence history_weight
     = Some (smooth_spec history gesture confidence)"
proof -
  define kept where
    "kept = (if length (history @ [(gesture, confidence)]) > 5
             then drop 1 (history @ [(gesture, confidence)])
             else history @ [(gesture, confidence)])"
  define last3 where "last3 = take 3 (rev kept)"
  define repeated where
    "repeated \<longleftrightarrow> length (filter (\<lambda>e. fst e = gesture) last3) \<ge> 2"
  have kept_src:
    "(if length (history @ [(gesture, confidence)]) > history_size
      then tl (history @ [(gesture, confidence)])
      else history @ [(gesture, confidence)]) = kept"
    by (simp only: kept_def history_size_def drop_1_tl)
  have ne: "kept \<noteq> []"
    by (cases history) (auto simp: kept_def)
  have cnt: "count_list (map fst (py_last_n 3 kept)) gesture \<ge> 2 \<longleftrightarrow> repeated"
    by (simp only: recent_count last3_def repeated_def)
  have src: "smooth_gesture history gesture confidence history_weight =
      (if repeated
       then Option.bind (py_div (\<Sum>e\<leftarrow>last3. snd e) (real (length last3)))
              (\<lambda>smoothed_conf. Some ((gesture, smoothed_conf), kept))
       else if gesture \<noteq> ''unknown'' then Some ((gesture, confidence), kept)
       else if length kept > 1
       then Option.bind (py_index kept (length kept - 2))
              (\<lambda>(last_gesture, last_conf). Some ((last_gesture, last_conf * (5 / 10)), kept))
       else Some ((''unknown'', 0), kept))"
    unfolding smooth_gesture_def Let_def kept_src cnt recent_sum recent_length
      last3_def [symmetric]
    using ne by simp
  have spec: "smooth_spec history gesture confidence =
      (if repeated
       then ((gesture, (\<Sum>e\<leftarrow>last3. snd e) / real (length last3)), kept)
       else if gesture \<noteq> ''unknown'' then ((gesture, confidence), kept)
       else (case rev kept of
               newest # (g, c) # older \<Rightarrow> ((g, c / 2), kept)
             | _ \<Rightarrow> ((''unknown'', 0), kept)))"
    unfolding smooth_spec_def Let_def kept_def [symmetric] last3_def [symmetric]
      repeated_def [symmetric] ..
  show ?thesis
  proof (cases repeated)
    case True
    then have "length last3 \<ge> 2"
      unfolding repeated_def
      using length_filter_le [of "\<lambda>e. fst e = gesture" last3] by linarith
    then have "real (length last3) \<noteq> 0" by auto
    with True show ?thesis
      unfolding src spec by (simp add: py_div_def)
  next
    case few: False
    show ?thesis
    proof (cases "gesture \<noteq> ''unknown''")
      case True
      with few show ?thesis
        unfolding src spec by simp
    next
      case unk: False
      show ?thesis
      proof (cases "length kept > 1")
        case True
        from second_most_recent [OF True] obtain newest older
          where r: "rev kept = newest # (kept ! (length kept - 2)) # older" by blast
        have i: "py_index kept (length kept - 2) = Some (kept ! (length kept - 2))"
          using True by (simp add: py_index_def)
        from few unk True show ?thesis
          unfolding src spec i r
          by (simp add: case_prod_beta)
      next
        case False
        from only_entry [OF ne False] obtain e where r: "rev kept = [e]" ..
        from few unk False show ?thesis
          unfolding src spec r
          by simp
      qed
    qed
  qed
qed

text \<open>
  C10. For a gesture other than \<open>unknown\<close>, whatever the confidence and the history,
  \<open>smooth_gesture\<close> returns normally and the gesture it returns is the input gesture:
  only the confidence can change. The label can change only for the input \<open>unknown\<close>.
\<close>

theorem smooth_keeps_real_gesture:
  assumes "gesture \<noteq> ''unknown''"
  shows "\<exists>conf history'.
     smooth_gesture history gesture confidence history_weight
       = Some ((gesture, conf), history')"
proof -
  define h where
    "h = (if length (history @ [(gesture, confidence)]) > history_size
          then tl (history @ [(gesture, confidence)])
          else history @ [(gesture, confidence)])"
  show ?thesis
  proof (cases "length h > 0 \<and> count_list (map fst (py_last_n 3 h)) gesture \<ge> 2")
    case True
    then have "length (map snd (py_last_n 3 h)) \<ge> 2"
      using count_le_length [of "map fst (py_last_n 3 h)" gesture] by simp
    then have "real (length (map snd (py_last_n 3 h))) \<noteq> 0" by auto
    then obtain m where
      "py_div (sum_list (map snd (py_last_n 3 h))) (real (length (map snd (py_last_n 3 h))))
         = Some m"
      by (simp add: py_div_def)
    with True show ?thesis
      unfolding smooth_gesture_def Let_def h_def [symmetric] by simp
  next
    case False
    with assms show ?thesis
      unfolding smooth_gesture_def Let_def h_def [symmetric] by auto
  qed
qed

theorem smooth_keeps_real_gesture_witness:
  "''rock'' \<noteq> ''unknown''
   \<and> (\<exists>conf history'.
        smooth_gesture [(''victory'', 88 / 100)] ''rock'' (88 / 100) (7 / 10)
          = Some ((''rock'', conf), history'))
   \<and> smooth_gesture [(''victory'', 88 / 100)] ''unknown'' 0 (7 / 10)
       = Some ((''victory'', 44 / 100), [(''victory'', 88 / 100), (''unknown'', 0)])"
proof -
  have ne: "''rock'' \<noteq> ''unknown''" by simp
  have "smooth_gesture [(''victory'', 88 / 100)] ''unknown'' 0 (7 / 10)
       = Some ((''victory'', 44 / 100), [(''victory'', 88 / 100), (''unknown'', 0)])"
    by (simp add: smooth_gesture_def history_size_def py_last_n_def py_index_def)
  with ne smooth_keeps_real_gesture [OF ne, of "[(''victory'', 88 / 100)]" "88 / 100" "7 / 10"]
  show ?thesis by simp
qed

section \<open>Properties of the validation window\<close>

lemma fold_max_key_in:
  "fold (\<lambda>cand best. if key cand > key best then cand else best) vs v \<in> set (v # vs)"
  by (induction vs arbitrary: v) (auto split: if_splits)

lemma fold_max_key_ge:
  fixes key :: "'a \<Rightarrow> nat"
  shows "x \<in> set (v # vs) \<Longrightarrow>
   key x \<le> key (fold (\<lambda>cand best. if key cand > key best then cand else best) vs v)"
proof (induction vs arbitrary: v x)
  case Nil
  then show ?case by simp
next
  case (Cons a vs)
  let ?v' = "if key a > key v then a else v"
  have step: "fold (\<lambda>cand best. if key cand > key best then cand else best) (a # vs) v
      = fold (\<lambda>cand best. if key cand > key best then cand else best) vs ?v'"
    by simp
  have v': "key v \<le> key ?v'" "key a \<le> key ?v'" by auto
  have top: "key ?v' \<le> key (fold (\<lambda>cand best. if key cand > key best then cand else best) vs ?v')"
    by (rule Cons.IH) simp
  from Cons.prems consider "x = v" | "x = a" | "x \<in> set vs" by auto
  then show ?case
  proof cases
    case 1 show ?thesis unfolding step 1 by (rule order_trans [OF v'(1) top])
  next
    case 2 show ?thesis unfolding step 2 by (rule order_trans [OF v'(2) top])
  next
    case 3
    then have "key x \<le> key (fold (\<lambda>cand best. if key cand > key best then cand else best) vs ?v')"
      by (intro Cons.IH) simp
    then show ?thesis unfolding step .
  qed
qed

lemma py_max_key_Some:
  fixes key :: "'a \<Rightarrow> nat"
  assumes "xs \<noteq> []"
  shows "\<exists>m. py_max_key key xs = Some m \<and> m \<in> set xs \<and> (\<forall>x\<in>set xs. key x \<le> key m)"
proof -
  from assms obtain v vs where xs: "xs = v # vs" by (cases xs) auto
  show ?thesis
    unfolding xs py_max_key.simps
    using fold_max_key_in [of key vs v] fold_max_key_ge [of _ v vs key] by blast
qed



lemma window_append_no_unknown:
  assumes "''unknown'' \<notin> fst ` set buf"
  shows "''unknown'' \<notin> fst ` set (window_append buf r)"
proof -
  have tl_sub: "set (tl xs) \<subseteq> set xs" for xs :: "(string \<times> real) list"
    by (cases xs) auto
  show ?thesis
    using assms tl_sub [of "buf @ [r]"] tl_sub [of buf]
    by (auto simp: window_append_def Let_def)
qed

lemma avg_confidence_Some:
  "xs \<noteq> [] \<Longrightarrow>
   avg_confidence float_sum xs = Some (fl (float_sum xs / real (length xs)))"
  by (simp add: avg_confidence_def py_float_div_def)

lemma validation_step_cases:
  assumes ord: "\<And>xs. set (set_order xs) = set xs"
  shows "\<exists>v. validation_step set_order float_sum buf r
               = Some (v, if v = None then window_append buf r else [])
     \<and> (\<forall>m. v = Some m \<longrightarrow>
            10 \<le> length (window_append buf r)
          \<and> m \<in> fst ` set (window_append buf r)
          \<and> 10 \<le> count_list (map fst (window_append buf r)) m
          \<and> (\<forall>l. count_list (map fst (window_append buf r)) l
                  \<le> count_list (map fst (window_append buf r)) m)
          \<and> mean_exceeds_threshold float_sum (window_append buf r))
     \<and> (v = None \<longrightarrow>
          \<not> (10 \<le> length (window_append buf r)
             \<and> (\<exists>l. 10 \<le> count_list (map fst (window_append buf r)) l)
             \<and> mean_exceeds_threshold float_sum (window_append buf r)))"
proof (cases "10 \<le> length (window_append buf r)")
  case False
  then show ?thesis
    by (simp add: validation_step_def min_frames_required_def Let_def)
next
  case True
  define b where "b = window_append buf r"
  define names where "names = map fst b"
  define passes where "passes = mean_exceeds_threshold float_sum b"
  from True have len: "10 \<le> length b" by (simp add: b_def)
  then have "names \<noteq> []" by (auto simp: names_def)
  then have "set (set_order names) \<noteq> {}" by (simp add: ord)
  then have "set_order names \<noteq> []" by auto
  from py_max_key_Some [OF this, of "count_list names"] obtain mc where
    mc: "py_max_key (count_list names) (set_order names) = Some mc"
    and mc_in: "mc \<in> set names"
    and mc_max: "\<forall>x\<in>set names. count_list names x \<le> count_list names mc"
    by (auto simp: ord)
  have mc_all: "count_list names l \<le> count_list names mc" for l
  proof (cases "l \<in> set names")
    case True with mc_max show ?thesis by blast
  next
    case False then show ?thesis by simp
  qed
  have ne: "map snd b \<noteq> []" using len by auto
  note avg = avg_confidence_Some [OF ne, of float_sum]
  have passes: "passes \<longleftrightarrow>
      confidence_threshold < fl (float_sum (map snd b) / real (length (map snd b)))"
    by (simp add: passes_def mean_exceeds_threshold_def avg)
  have step: "validation_step set_order float_sum buf r =
      (if count_list names mc \<ge> 10 \<and> passes
       then Some (Some mc, []) else Some (None, b))"
    using len mc
    by (simp add: validation_step_def Let_def b_def [symmetric] names_def [symmetric]
        min_frames_required_def avg passes)
  show ?thesis
  proof (cases "count_list names mc \<ge> 10 \<and> passes")
    case True
    with step len mc_in mc_all show ?thesis
      unfolding b_def [symmetric] names_def [symmetric] passes_def [symmetric]
      by (simp add: names_def)
  next
    case False
    have "\<not> (\<exists>l. 10 \<le> count_list names l) \<or> \<not> passes"
    proof (cases passes)
      case True
      with False have "\<not> count_list names mc \<ge> 10" by simp
      with mc_all have "\<not> (\<exists>l. 10 \<le> count_list names l)"
        by (meson order_trans)
      then show ?thesis ..
    next
      case False then show ?thesis ..
    qed
    with step False show ?thesis
      unfolding b_def [symmetric] names_def [symmetric] passes_def [symmetric]
      by auto
  qed
qed

lemma count_list_replicate: "count_list (replicate k x) l = (if l = x then k else 0)"
  by (induction k) auto

lemma window_append_same:
  assumes "X \<noteq> ''unknown''" and "n < 12"
  shows "window_append (replicate n (X, c)) (X, c) = replicate (Suc n) (X, c)"
  using assms
  by (simp add: window_append_def max_frames_def Let_def replicate_append_same)

lemma replicate_snoc: "replicate (Suc n) x = replicate n x @ [x]"
  by (simp add: replicate_append_same)

lemma step_same:
  assumes ord: "\<And>xs. set (set_order xs) = set xs"
    and X: "X \<noteq> ''unknown''" and n: "n < 12"
  shows "validation_step set_order float_sum (replicate n (X, c)) (X, c) =
     (if 10 \<le> Suc n \<and> mean_exceeds_threshold float_sum (replicate (Suc n) (X, c))
      then Some (Some X, [])
      else Some (None, replicate (Suc n) (X, c)))"
proof -
  define b where "b = replicate (Suc n) (X, c)"
  define passes where "passes = mean_exceeds_threshold float_sum b"
  have wa: "window_append (replicate n (X, c)) (X, c) = b"
    unfolding b_def by (rule window_append_same [OF X n])
  have names: "map fst b = replicate (Suc n) X" by (simp add: b_def)
  have cnt: "count_list (map fst b) l = (if l = X then Suc n else 0)" for l
    unfolding names by (rule count_list_replicate)
  have len: "length b = Suc n" by (simp add: b_def)
  have mem: "fst ` set b = {X}" by (auto simp: b_def)
  from validation_step_cases [OF ord, of float_sum "replicate n (X, c)" "(X, c)"]
  obtain v where
    st: "validation_step set_order float_sum (replicate n (X, c)) (X, c)
           = Some (v, if v = None then b else [])"
    and some: "\<And>m. v = Some m \<Longrightarrow> 10 \<le> length b \<and> m \<in> fst ` set b \<and> passes"
    and none: "v = None \<Longrightarrow>
         \<not> (10 \<le> length b \<and> (\<exists>l. 10 \<le> count_list (map fst b) l) \<and> passes)"
    unfolding wa passes_def by blast
  show ?thesis
  proof (cases v)
    case None
    have "\<exists>l. 10 \<le> count_list (map fst b) l" if "10 \<le> Suc n"
    proof
      show "10 \<le> count_list (map fst b) X" using that cnt [of X] by simp
    qed
    with none [OF None] have "\<not> (10 \<le> Suc n \<and> passes)"
      unfolding len by blast
    with st None show ?thesis
      unfolding passes_def b_def by (simp del: replicate.simps)
  next
    case (Some m)
    from some [OF Some] have "10 \<le> Suc n" and "m = X" and "passes"
      unfolding len mem by simp_all
    with Some st show ?thesis
      unfolding passes_def b_def by simp
  qed
qed

lemma run_window_append:
  "run_window set_order float_sum buf (xs @ ys) =
     (case run_window set_order float_sum buf xs of
        None \<Rightarrow> None
      | Some (es, b) \<Rightarrow>
          (case run_window set_order float_sum b ys of
             None \<Rightarrow> None
           | Some (fs, final) \<Rightarrow> Some (es @ fs, final)))"
  by (induction xs arbitrary: buf) (auto split: option.splits Option.bind_splits)

lemma run_same_accumulate:
  assumes ord: "\<And>xs. set (set_order xs) = set xs"
    and X: "X \<noteq> ''unknown''"
  shows "n + k < 10 \<Longrightarrow>
    run_window set_order float_sum (replicate n (X, c)) (replicate k (X, c))
      = Some (replicate k None, replicate (n + k) (X, c))"
proof (induction k arbitrary: n)
  case 0
  then show ?case by simp
next
  case (Suc k)
  then have n: "n < 12" and small: "\<not> 10 \<le> Suc n" and next_ok: "Suc n + k < 10" by simp_all
  have "validation_step set_order float_sum (replicate n (X, c)) (X, c)
          = Some (None, replicate (Suc n) (X, c))"
    using step_same [OF ord X n, of float_sum c] small by simp
  moreover have
    "run_window set_order float_sum (replicate (Suc n) (X, c)) (replicate k (X, c))
      = Some (replicate k None, replicate (Suc n + k) (X, c))"
    by (rule Suc.IH [OF next_ok])
  ultimately show ?case by (simp del: replicate.simps(2) add: replicate_Suc [of k])
qed

lemma run_same_ten:
  assumes ord: "\<And>xs. set (set_order xs) = set xs"
    and X: "X \<noteq> ''unknown''"
    and c: "mean_exceeds_threshold float_sum (replicate 10 (X, c))"
  shows "run_window set_order float_sum [] (replicate 10 (X, c))
           = Some (replicate 9 None @ [Some X], [])"
proof -
  have ten: "(10::nat) = Suc 9" by simp
  then have split: "replicate 10 (X, c) = replicate 9 (X, c) @ [(X, c)]"
    by (simp only: replicate_snoc)
  have nine: "run_window set_order float_sum [] (replicate 9 (X, c))
                = Some (replicate 9 None, replicate 9 (X, c))"
    using run_same_accumulate [OF ord X, of 0 9 float_sum c] by simp
  have tenth: "validation_step set_order float_sum (replicate 9 (X, c)) (X, c)
                 = Some (Some X, [])"
    using step_same [OF ord X, of 9 float_sum c] c [unfolded ten] by simp
  show ?thesis
    unfolding split run_window_append nine using tenth by simp
qed


text \<open>
  Ten doubles \<open>0.8\<close> summed left to right give \<open>7.999999999999999\<close> and the mean
  \<open>0.7999999999999999\<close>, above the threshold. Ten doubles \<open>0.7\<close> give the mean
  \<open>0.7000000000000001\<close>, above the threshold as well, although each of them equals the
  threshold: at such a tie the rounding of the sum decides.
\<close>

lemma replicate_ten: "replicate 10 v = [v, v, v, v, v, v, v, v, v, v]"
  by (simp add: numeral_eq_Suc)

lemma naive_mean_of_ten:
  "avg_confidence naive_sum (replicate 10 (fl (8 / 10)))
     = Some (7205759403792793 / 9007199254740992)"
  "avg_confidence naive_sum (replicate 10 (fl (7 / 10)))
     = Some (6305039478318695 / 9007199254740992)"
  "confidence_threshold = 6305039478318694 / 9007199254740992"
  unfolding replicate_ten
  by (simp_all add: avg_confidence_def py_float_div_def naive_sum_def
      confidence_threshold_def fl_eval)

lemma naive_mean_exceeds:
  "mean_exceeds_threshold naive_sum (replicate 10 (X, fl (8 / 10)))"
  "mean_exceeds_threshold naive_sum (replicate 10 (X, fl (7 / 10)))"
  unfolding mean_exceeds_threshold_def map_replicate snd_conv naive_mean_of_ten
  by simp_all

lemma ten_at_threshold_validate:
  assumes ord: "\<And>xs. set (set_order xs) = set xs"
    and X: "X \<noteq> ''unknown''"
  shows "run_window set_order naive_sum [] (replicate 10 (X, fl (7 / 10)))
           = Some (replicate 9 None @ [Some X], [])"
  by (rule run_same_ten [OF ord X naive_mean_exceeds(2)])



lemma run_window_general:
  assumes ord: "\<And>xs. set (set_order xs) = set xs"
  shows "''unknown'' \<notin> fst ` set buf \<Longrightarrow>
    \<exists>es final. run_window set_order float_sum buf rs = Some (es, final)
      \<and> Some ''unknown'' \<notin> set es
      \<and> ((\<forall>b\<in>set (checked_buffers set_order float_sum buf rs).
             \<forall>l. count_list (map fst b) l < 10) \<longrightarrow> (\<forall>e\<in>set es. e = None))"
proof (induction rs arbitrary: buf)
  case Nil
  then show ?case by simp
next
  case (Cons r rs)
  define b where "b = window_append buf r"
  have b_ok: "''unknown'' \<notin> fst ` set b"
    unfolding b_def by (rule window_append_no_unknown [OF Cons.prems])
  from validation_step_cases [OF ord, of float_sum buf r]
  obtain v where
    st: "validation_step set_order float_sum buf r
           = Some (v, if v = None then b else [])"
    and some: "\<And>m. v = Some m \<Longrightarrow> m \<in> fst ` set b \<and> 10 \<le> count_list (map fst b) m"
    unfolding b_def by blast
  define buf' where "buf' = (if v = None then b else [])"
  have buf'_ok: "''unknown'' \<notin> fst ` set buf'"
    using b_ok by (cases v) (simp_all add: buf'_def)
  from Cons.IH [OF buf'_ok] obtain es final where
    run: "run_window set_order float_sum buf' rs = Some (es, final)"
    and es_ok: "Some ''unknown'' \<notin> set es"
    and es_none: "(\<forall>b\<in>set (checked_buffers set_order float_sum buf' rs).
             \<forall>l. count_list (map fst b) l < 10) \<longrightarrow> (\<forall>e\<in>set es. e = None)"
    by blast
  have run': "run_window set_order float_sum buf (r # rs) = Some (v # es, final)"
    using st run by (simp add: buf'_def)
  have chk: "checked_buffers set_order float_sum buf (r # rs)
               = b # checked_buffers set_order float_sum buf' rs"
    using st by (simp add: b_def buf'_def)
  have v_ok: "v \<noteq> Some ''unknown''"
    using some b_ok by blast
  have v_none: "v = None" if "\<forall>l. count_list (map fst b) l < 10"
  proof (cases v)
    case None then show ?thesis .
  next
    case (Some m)
    from some [OF Some] that have False by (meson not_less)
    then show ?thesis ..
  qed
  show ?case
    unfolding run' chk using v_ok es_ok es_none v_none by auto
qed

text \<open>
  C5. From the empty buffer, for every stream of smoothed results, any iteration order
  of the label set and any summing function, the loop never raises and never validates
  \<open>unknown\<close> (only results other than \<open>unknown\<close> enter the buffer, and the validated label
  is taken from the buffer). If in no buffer that a check looks at a label reaches
  count 10, no step validates anything, whatever the confidences.
\<close>

theorem window_never_unknown:
  assumes ord: "\<And>xs. set (set_order xs) = set xs"
  shows "\<exists>es final. run_window set_order float_sum [] rs = Some (es, final)
      \<and> Some ''unknown'' \<notin> set es
      \<and> ((\<forall>b\<in>set (checked_buffers set_order float_sum [] rs).
             \<forall>l. count_list (map fst b) l < 10) \<longrightarrow> (\<forall>e\<in>set es. e = None))"
  by (rule run_window_general [OF ord]) simp

theorem window_never_unknown_witness:
  "\<not> (\<exists>b\<in>set (checked_buffers remdups naive_sum [] mixed_stream).
        \<exists>l. 10 \<le> count_list (map fst b) l)
   \<and> (\<exists>es final. run_window remdups naive_sum [] mixed_stream = Some (es, final)
         \<and> Some ''unknown'' \<notin> set es \<and> list_all (\<lambda>e. e = None) es)"
proof -
  have ord: "set (remdups xs) = set xs" for xs :: "string list" by simp
  have hyp: "\<forall>b\<in>set (checked_buffers remdups naive_sum [] mixed_stream).
               \<forall>l. count_list (map fst b) l < 10"
    by (simp add: mixed_stream_def validation_step_def window_append_def max_frames_def
      min_frames_required_def avg_confidence_def py_float_div_def Let_def)
  from window_never_unknown [OF ord, of naive_sum mixed_stream] hyp
  obtain es final where "run_window remdups naive_sum [] mixed_stream = Some (es, final)"
    and "Some ''unknown'' \<notin> set es" and "\<forall>e\<in>set es. e = None" by blast
  then have "\<exists>es final. run_window remdups naive_sum [] mixed_stream = Some (es, final)
         \<and> Some ''unknown'' \<notin> set es \<and> list_all (\<lambda>e. e = None) es"
    by (auto simp: list_all_iff)
  moreover from hyp have "\<not> (\<exists>b\<in>set (checked_buffers remdups naive_sum [] mixed_stream).
        \<exists>l. 10 \<le> count_list (map fst b) l)"
    by (meson not_less)
  ultimately show ?thesis by blast
qed

section \<open>Properties of the command mapper\<close>

text \<open>Every label that \<open>classify\<close> returns is one of the thirteen gesture labels.\<close>

lemma direction_choice:
  "(if a then (if b then x1 else if c then x2 else u)
    else (if d then x3 else if e then x4 else u)) \<in> set [x1, x2, x3, x4, u]"
  by simp

lemma bind2_direction:
  assumes "Option.bind a (\<lambda>w. Option.bind b (\<lambda>t. Some
     (if A w t then (if B w t then x1 else if C w t then x2 else u)
      else (if D w t then x3 else if E w t then x4 else u)))) = Some g"
  shows "g \<in> set [x1, x2, x3, x4, u]"
proof -
  from assms obtain w t where
    "g = (if A w t then (if B w t then x1 else if C w t then x2 else u)
          else (if D w t then x3 else if E w t then x4 else u))"
    by (cases a; cases b) auto
  then show ?thesis by (simp only: direction_choice)
qed

lemma get_thumb_direction_labels:
  assumes "get_thumb_direction lm h = Some g"
  shows "g \<in> set [''thumbs_left'', ''thumbs_right'', ''thumbs_up'', ''thumbs_down'', ''unknown'']"
  by (rule bind2_direction [OF assms [unfolded get_thumb_direction_def Let_def]])

lemma get_point_direction_labels:
  assumes "get_point_direction lm h = Some g"
  shows "g \<in> set [''left_point'', ''right_point'', ''up_point'', ''down_point'', ''unknown'']"
  by (rule bind2_direction [OF assms [unfolded get_point_direction_def Let_def]])

lemma set_gesture_labels:
  "set [''thumbs_left'', ''thumbs_right'', ''thumbs_up'', ''thumbs_down'', ''unknown'']
     \<subseteq> set gesture_labels"
  "set [''left_point'', ''right_point'', ''up_point'', ''down_point'', ''unknown'']
     \<subseteq> set gesture_labels"
  "''victory'' \<in> set gesture_labels" "''rock'' \<in> set gesture_labels"
  "''open_palm'' \<in> set gesture_labels" "''closed_palm'' \<in> set gesture_labels"
  "''unknown'' \<in> set gesture_labels"
  by (simp_all add: gesture_labels_def)

lemma later_rules_labels:
  assumes "later_rules lm h i m r p = Some (g, c)"
  shows "g \<in> set gesture_labels"
proof -
  consider (victory) "i \<and> m \<and> \<not> r \<and> \<not> p"
    | (rock) "\<not> (i \<and> m \<and> \<not> r \<and> \<not> p)" "i \<and> p \<and> \<not> m \<and> \<not> r"
    | (point) "\<not> (i \<and> m \<and> \<not> r \<and> \<not> p)" "\<not> (i \<and> p \<and> \<not> m \<and> \<not> r)"
        "i \<and> \<not> m \<and> \<not> r \<and> \<not> p"
    | (none) "\<not> (i \<and> m \<and> \<not> r \<and> \<not> p)" "\<not> (i \<and> p \<and> \<not> m \<and> \<not> r)"
        "\<not> (i \<and> \<not> m \<and> \<not> r \<and> \<not> p)"
    by blast
  then show ?thesis
  proof cases
    case victory
    with assms have "g = ''victory''" by (simp add: later_rules_def)
    then show ?thesis by (simp only: set_gesture_labels)
  next
    case rock
    with assms have "g = ''rock''" by (simp add: later_rules_def)
    then show ?thesis by (simp only: set_gesture_labels)
  next
    case point
    with assms obtain d where "get_point_direction lm h = Some d" and "g = d"
      by (cases "get_point_direction lm h") (simp_all add: later_rules_def)
    with get_point_direction_labels [of lm h d] set_gesture_labels(2)
    show ?thesis by blast
  next
    case none
    with assms have "g = ''unknown''" by (simp add: later_rules_def)
    then show ?thesis by (simp only: set_gesture_labels)
  qed
qed

lemma classify_labels:
  assumes "classify lm h = Some (g, c)"
  shows "g \<in> set gesture_labels"
proof (cases "length lm \<noteq> 21")
  case True
  with assms have "g = ''unknown''" by (simp add: classify_def)
  then show ?thesis by (simp only: set_gesture_labels)
next
  case False
  then have len: "length lm = 21" by simp
  obtain t i m r p where fs: "finger_states lm = Some (t, i, m, r, p)"
    using finger_states_21 [OF len] by blast
  show ?thesis
  proof (cases "t \<and> \<not> i \<and> \<not> m \<and> \<not> r \<and> \<not> p")
    case True
    with assms len fs obtain d where "get_thumb_direction lm h = Some d" and "g = d"
      by (cases "get_thumb_direction lm h") (simp_all add: classify_def)
    with get_thumb_direction_labels [of lm h d] set_gesture_labels(1)
    show ?thesis by blast
  next
    case not_thumb: False
    show ?thesis
    proof (cases "\<not> (t \<or> i \<or> m \<or> r \<or> p)")
      case True
      with assms len fs have "g = ''closed_palm''" by (simp add: classify_def)
      then show ?thesis by (simp only: set_gesture_labels)
    next
      case not_closed: False
      show ?thesis
      proof (cases "t \<and> i \<and> m \<and> r \<and> p")
        case True
        from finger_spread_21 [OF len] obtain s where s: "finger_spread lm = Some s" ..
        show ?thesis
        proof (cases "s > 3 / 10")
          case big: True
          with assms len fs True s have "g = ''open_palm''" by (simp add: classify_def)
          then show ?thesis by (simp only: set_gesture_labels)
        next
          case small: False
          with assms len fs True s have "later_rules lm h i m r p = Some (g, c)"
            by (simp add: classify_def)
          then show ?thesis by (rule later_rules_labels)
        qed
      next
        case False
        with assms len fs not_thumb not_closed
        have "later_rules lm h i m r p = Some (g, c)"
          by (auto simp: classify_def split: if_splits)
        then show ?thesis by (rule later_rules_labels)
      qed
    qed
  qed
qed

text \<open>
  The keys of the gesture table are the gesture labels without \<open>unknown\<close>; the keys of
  the shape table are the shape labels; no key occurs twice.
\<close>

lemma table_keys:
  "map fst GESTURE_TO_COMMAND = filter (\<lambda>g. g \<noteq> ''unknown'') gesture_labels"
  "map fst SHAPE_TO_COMMAND = shape_labels"
  "distinct (map fst GESTURE_TO_COMMAND)" "distinct (map fst SHAPE_TO_COMMAND)"
  by (simp_all add: GESTURE_TO_COMMAND_def SHAPE_TO_COMMAND_def gesture_labels_def
      shape_labels_def)

text \<open>
  The label \<open>unknown\<close> is a gesture label, and it has no entry in the gesture table: its
  display text is the empty text of the fallback.
\<close>

theorem unknown_has_no_command:
  "''unknown'' \<in> set gesture_labels \<and> fst (get_gesture_command ''unknown'') = ''''"
  by (simp add: gesture_labels_def get_gesture_command_def py_dict_get_def
      GESTURE_TO_COMMAND_def)

text \<open>
  C7. \<open>get_gesture_command\<close> and \<open>get_shape_command\<close> are functions of their argument
  alone (the tables are constants). Every gesture label other than \<open>unknown\<close> and every
  shape label returns the non-empty display text and the colour of its table entry; a
  key outside a table returns the fallback \<open>("", (128, 128, 128))\<close>, and so does the
  gesture label \<open>unknown\<close>.
\<close>

theorem command_lookup_total:
  "(\<forall>g\<in>set gesture_labels. g \<noteq> ''unknown'' \<longrightarrow>
       fst (get_gesture_command g) \<noteq> ''''
     \<and> map_of GESTURE_TO_COMMAND g = Some (get_gesture_command g))
   \<and> (\<forall>s\<in>set shape_labels.
       fst (get_shape_command s) \<noteq> ''''
     \<and> map_of SHAPE_TO_COMMAND s = Some (get_shape_command s))
   \<and> (k \<notin> fst ` set GESTURE_TO_COMMAND \<longrightarrow> get_gesture_command k = ('''', (128, 128, 128)))
   \<and> (k \<notin> fst ` set SHAPE_TO_COMMAND \<longrightarrow> get_shape_command k = ('''', (128, 128, 128)))
   \<and> get_gesture_command ''unknown'' = ('''', (128, 128, 128))"
proof (intro conjI)
  show "\<forall>g\<in>set gesture_labels. g \<noteq> ''unknown'' \<longrightarrow>
       fst (get_gesture_command g) \<noteq> ''''
     \<and> map_of GESTURE_TO_COMMAND g = Some (get_gesture_command g)"
    by (simp add: gesture_labels_def get_gesture_command_def py_dict_get_def
        GESTURE_TO_COMMAND_def)
  show "\<forall>s\<in>set shape_labels.
       fst (get_shape_command s) \<noteq> ''''
     \<and> map_of SHAPE_TO_COMMAND s = Some (get_shape_command s)"
    by (simp add: shape_labels_def get_shape_command_def py_dict_get_def
        SHAPE_TO_COMMAND_def)
  show "k \<notin> fst ` set GESTURE_TO_COMMAND \<longrightarrow> get_gesture_command k = ('''', (128, 128, 128))"
    by (simp add: get_gesture_command_def py_dict_get_def map_of_eq_None_iff [THEN iffD2])
  show "k \<notin> fst ` set SHAPE_TO_COMMAND \<longrightarrow> get_shape_command k = ('''', (128, 128, 128))"
    by (simp add: get_shape_command_def py_dict_get_def map_of_eq_None_iff [THEN iffD2])
  show "get_gesture_command ''unknown'' = ('''', (128, 128, 128))"
    by (simp add: get_gesture_command_def py_dict_get_def GESTURE_TO_COMMAND_def)
qed

theorem command_lookup_total_witness:
  "''victory'' \<in> set gesture_labels \<and> ''victory'' \<noteq> ''unknown''
   \<and> fst (get_gesture_command ''victory'') \<noteq> ''''
   \<and> get_gesture_command ''victory''
       = (''VICTORY CELEBRATION! '' @ [CHR 0xF0, CHR 0x9F, CHR 0x8E, CHR 0x89], (0, 200, 255))
   \<and> ''circle'' \<in> set shape_labels
   \<and> get_shape_command ''circle'' = (''CIRCLE MOVEMENT'', (100, 100, 255))
   \<and> ''wave'' \<notin> fst ` set GESTURE_TO_COMMAND
   \<and> get_gesture_command ''wave'' = ('''', (128, 128, 128))
   \<and> ''star'' \<notin> fst ` set SHAPE_TO_COMMAND
   \<and> get_shape_command ''star'' = ('''', (128, 128, 128))"
proof -
  have g: "''victory'' \<in> set gesture_labels" and gu: "''victory'' \<noteq> ''unknown''"
    by (simp_all add: gesture_labels_def)
  have s: "''circle'' \<in> set shape_labels" by (simp add: shape_labels_def)
  have k1: "''wave'' \<notin> fst ` set GESTURE_TO_COMMAND"
    by (simp add: GESTURE_TO_COMMAND_def)
  have k2: "''star'' \<notin> fst ` set SHAPE_TO_COMMAND"
    by (simp add: SHAPE_TO_COMMAND_def)
  have v: "map_of GESTURE_TO_COMMAND ''victory''
     = Some (''VICTORY CELEBRATION! '' @ [CHR 0xF0, CHR 0x9F, CHR 0x8E, CHR 0x89], (0, 200, 255))"
    by (simp add: GESTURE_TO_COMMAND_def)
  have c: "map_of SHAPE_TO_COMMAND ''circle'' = Some (''CIRCLE MOVEMENT'', (100, 100, 255))"
    by (simp add: SHAPE_TO_COMMAND_def)
  note wave = command_lookup_total [of "''wave''"]
  note star = command_lookup_total [of "''star''"]
  from wave have "\<forall>g\<in>set gesture_labels. g \<noteq> ''unknown'' \<longrightarrow>
       fst (get_gesture_command g) \<noteq> ''''
     \<and> map_of GESTURE_TO_COMMAND g = Some (get_gesture_command g)"
    by (rule conjunct1)
  from bspec [OF this g] gu
  have f1: "fst (get_gesture_command ''victory'') \<noteq> ''''"
    and f2: "map_of GESTURE_TO_COMMAND ''victory'' = Some (get_gesture_command ''victory'')"
    by (simp_all only: simp_thms)
  from wave k1 have f3: "get_gesture_command ''wave'' = ('''', (128, 128, 128))"
    by (simp only: simp_thms)
  from star have "\<forall>s\<in>set shape_labels.
       fst (get_shape_command s) \<noteq> ''''
     \<and> map_of SHAPE_TO_COMMAND s = Some (get_shape_command s)"
    by (rule conjunct1 [OF conjunct2])
  from bspec [OF this s]
  have f4: "map_of SHAPE_TO_COMMAND ''circle'' = Some (get_shape_command ''circle'')"
    by (rule conjunct2)
  from star k2 have f5: "get_shape_command ''star'' = ('''', (128, 128, 128))"
    by (simp only: simp_thms)
  from f2 v have f6: "get_gesture_command ''victory''
       = (''VICTORY CELEBRATION! '' @ [CHR 0xF0, CHR 0x9F, CHR 0x8E, CHR 0x89], (0, 200, 255))"
    by (simp only: option.inject)
  from f4 c have f7: "get_shape_command ''circle'' = (''CIRCLE MOVEMENT'', (100, 100, 255))"
    by (simp only: option.inject)
  show ?thesis
    by (intro conjI) (rule g gu f1 f6 s f7 k1 f3 k2 f5)+
qed

end
